theory Spec2Isabelle
  imports Complex_Main
begin

section \<open>JavaScript values used by the dashboard\<close>

text \<open>
  A JavaScript string is a sequence of UTF-16 code units; a code unit is modelled by its
  number. \<open>js\<close> turns an ASCII literal of the source into that representation.
\<close>

type_synonym jsstring = "nat list"

definition js :: "string \<Rightarrow> jsstring" where
  "js s = map of_char s"

text \<open>
  \<open>String.prototype.trim\<close> removes WhiteSpace and LineTerminator code points from both
  ends (ECMAScript: TAB, VT, FF, ZWNBSP, the category Zs, LF, CR, LS, PS).
\<close>

definition isWhiteSpace :: "nat \<Rightarrow> bool" where
  "isWhiteSpace c = (c \<in> set [9, 10, 11, 12, 13, 32, 160, 5760, 8192, 8193, 8194, 8195,
     8196, 8197, 8198, 8199, 8200, 8201, 8202, 8232, 8233, 8239, 8287, 12288, 65279])"

definition trim :: "jsstring \<Rightarrow> jsstring" where
  "trim s = rev (dropWhile isWhiteSpace (rev (dropWhile isWhiteSpace s)))"

text \<open>A string is truthy exactly when it is not empty.\<close>

definition truthy :: "jsstring \<Rightarrow> bool" where
  "truthy s = (s \<noteq> [])"

text \<open>
  A JavaScript number is NaN, an infinity or a finite value. The finite doubles are
  embedded in the reals (\<open>-0\<close> compares like \<open>0\<close>).
\<close>

datatype jsnum = NaN | NegInf | Fin real | PosInf

text \<open>\<open>x >= 0\<close> and \<open>x > 0\<close> on numbers: every comparison with NaN is false.\<close>

fun ge_zero :: "jsnum \<Rightarrow> bool" where
  "ge_zero NaN = False"
| "ge_zero NegInf = False"
| "ge_zero (Fin r) = (r \<ge> 0)"
| "ge_zero PosInf = True"

fun gt_zero :: "jsnum \<Rightarrow> bool" where
  "gt_zero NaN = False"
| "gt_zero NegInf = False"
| "gt_zero (Fin r) = (r > 0)"
| "gt_zero PosInf = True"

text \<open>
  A numeric field of the response payload is declared \<open>number\<close>; at run time the field
  can be absent, which reads as \<open>undefined\<close>.
\<close>

datatype jsval = Undefined | Number jsnum

fun toNumber :: "jsval \<Rightarrow> jsnum" where
  "toNumber Undefined = NaN"
| "toNumber (Number n) = n"

text \<open>The global \<open>isNaN(v)\<close> converts its argument to a number first.\<close>

definition isNaN :: "jsval \<Rightarrow> bool" where
  "isNaN v = (toNumber v = NaN)"

text \<open>
  Built-ins of the platform whose results depend on the Unicode tables or on the binary
  floating-point representation are parameters of the model: \<open>String.prototype.toUpperCase\<close>
  (\<open>upper\<close> below), \<open>Number.prototype.toFixed\<close> (\<open>toFixed\<close>) and the multiplication
  by a number (\<open>mult\<close>).
\<close>

datatype error = TypeError

text \<open>
  The method call \<open>v.toFixed(d)\<close>: reading a property of \<open>undefined\<close> raises a TypeError.
\<close>

fun callToFixed :: "(jsnum \<Rightarrow> nat \<Rightarrow> jsstring) \<Rightarrow> jsval \<Rightarrow> nat \<Rightarrow> error + jsstring" where
  "callToFixed toFixed Undefined d = Inl TypeError"
| "callToFixed toFixed (Number n) d = Inr (toFixed n d)"

section \<open>The response payload\<close>

text \<open>
  \<open>HistoricalData\<close> and \<open>StockData\<close> of \<open>App.tsx\<close>. A nullable field is an option
  (\<open>None\<close> is \<open>null\<close>). The second source file declares the same interfaces without
  \<open>predicted_close\<close> and \<open>mean_price\<close>. \<open>historical\<close> is \<open>None\<close> when the payload
  has no such field.
\<close>

record HistoricalData =
  date :: jsstring
  close :: "jsnum option"
  ma5 :: "jsnum option"
  predicted_close :: "jsnum option"

record StockData =
  symbol :: jsstring
  average_sentiment :: jsval
  price_change :: jsval
  reddit_sentiment :: jsval
  yfinance_sentiment :: jsval
  historical :: "HistoricalData list option"
  mean_price :: jsval

section \<open>View state and the fetch operation\<close>

text \<open>
  The five \<open>useState\<close> cells of \<open>App\<close>, together with what the component does to the
  network: \<open>requests\<close> lists the URLs of the GET requests issued so far, \<open>pending\<close> the
  tickers of the calls of \<open>fetchStockData\<close> suspended at their \<open>await\<close>. The cell
  \<open>symbol\<close> is \<open>currentSymbol\<close> here, since \<open>symbol\<close> is a field of the payload.
\<close>

record App =
  stockData :: "StockData option"
  currentSymbol :: jsstring
  inputValue :: jsstring
  loading :: bool
  error :: "jsstring option"
  requests :: "jsstring list"
  pending :: "jsstring list"

definition initial :: App where
  "initial = \<lparr> stockData = None, currentSymbol = js ''AAPL'', inputValue = js ''AAPL'',
     loading = False, error = None, requests = [], pending = [] \<rparr>"

text \<open>The rejection value of \<open>axios.get\<close>, as far as \<open>err.response?.data?.detail\<close> reads it.\<close>

record ErrorBody =
  detail :: "jsstring option"

record ErrorResponse =
  data :: "ErrorBody option"

record AxiosError =
  response :: "ErrorResponse option"

datatype outcome = Resolved StockData | Rejected AxiosError

definition compareUrl :: "jsstring \<Rightarrow> jsstring" where
  "compareUrl ticker = js ''http://localhost:8000/compare/'' @ ticker"

text \<open>
  \<open>fetchStockData\<close> (the same text in both source files) runs in two parts. Up to the
  \<open>await\<close> it sets the loading flag, clears the error and issues the request.
\<close>

definition fetchStockData_begin :: "jsstring \<Rightarrow> App \<Rightarrow> App" where
  "fetchStockData_begin ticker s =
     s\<lparr> loading := True, error := None,
        requests := requests s @ [compareUrl ticker],
        pending := pending s @ [ticker] \<rparr>"

text \<open>\<open>err.response?.data?.detail\<close>: optional chaining stops at the first missing part.\<close>

definition detailOf :: "AxiosError \<Rightarrow> jsstring option" where
  "detailOf err =
     (case response err of
        None \<Rightarrow> None
      | Some r \<Rightarrow> (case data r of None \<Rightarrow> None | Some b \<Rightarrow> detail b))"

text \<open>\<open>err.response?.data?.detail || "Failed to fetch stock data"\<close>\<close>

definition errorMessage :: "AxiosError \<Rightarrow> jsstring" where
  "errorMessage err =
     (case detailOf err of
        None \<Rightarrow> js ''Failed to fetch stock data''
      | Some d \<Rightarrow> if truthy d then d else js ''Failed to fetch stock data'')"

text \<open>
  When the promise settles the call resumes: the \<open>try\<close> body stores the payload and the
  ticker, the \<open>catch\<close> block stores the error message, and \<open>finally\<close> clears the loading
  flag on both paths.
\<close>

definition fetchStockData_settle :: "jsstring \<Rightarrow> outcome \<Rightarrow> App \<Rightarrow> App" where
  "fetchStockData_settle ticker out s =
     (case out of
        Resolved payload \<Rightarrow>
          s\<lparr> stockData := Some payload, currentSymbol := ticker, loading := False \<rparr>
      | Rejected err \<Rightarrow>
          s\<lparr> error := Some (errorMessage err), loading := False \<rparr>)"





section \<open>The search control\<close>

definition onChange :: "(jsstring \<Rightarrow> jsstring) \<Rightarrow> jsstring \<Rightarrow> App \<Rightarrow> App" where
  "onChange upper text s = s\<lparr> inputValue := upper text \<rparr>"

definition onKeyDown :: "jsstring \<Rightarrow> App \<Rightarrow> App" where
  "onKeyDown key s =
     (if key = js ''Enter'' \<and> truthy (trim (inputValue s))
      then fetchStockData_begin (trim (inputValue s)) s else s)"

definition onClick :: "App \<Rightarrow> App" where
  "onClick s =
     (if truthy (trim (inputValue s))
      then fetchStockData_begin (trim (inputValue s)) s else s)"

definition inputDisabled :: "App \<Rightarrow> bool" where
  "inputDisabled s = loading s"

definition buttonDisabled :: "App \<Rightarrow> bool" where
  "buttonDisabled s = loading s"

section \<open>Events\<close>

text \<open>
  What can happen to a mounted component: the user edits the field, presses a key in it or
  activates the button, and a suspended call of \<open>fetchStockData\<close> resumes when its promise
  settles. A disabled control dispatches no event. \<open>useEffect\<close> calls
  \<open>fetchStockData(symbol)\<close> once after the first render.
\<close>

datatype event = Change jsstring | KeyDown jsstring | Click | Settle nat outcome

definition removeAt :: "nat \<Rightarrow> 'a list \<Rightarrow> 'a list" where
  "removeAt i xs = take i xs @ drop (Suc i) xs"

fun step :: "(jsstring \<Rightarrow> jsstring) \<Rightarrow> event \<Rightarrow> App \<Rightarrow> App" where
  "step upper (Change text) s = (if inputDisabled s then s else onChange upper text s)"
| "step upper (KeyDown key) s = (if inputDisabled s then s else onKeyDown key s)"
| "step upper Click s = (if buttonDisabled s then s else onClick s)"
| "step upper (Settle i out) s =
     (if i < length (pending s)
      then fetchStockData_settle (pending s ! i) out (s\<lparr> pending := removeAt i (pending s) \<rparr>)
      else s)"

definition mounted :: App where
  "mounted = fetchStockData_begin (currentSymbol initial) initial"

definition run :: "(jsstring \<Rightarrow> jsstring) \<Rightarrow> event list \<Rightarrow> App" where
  "run upper evs = foldl (\<lambda>s e. step upper e s) mounted evs"

text \<open>An upper-casing function for ASCII text, used to evaluate examples.\<close>

definition asciiUpper :: "jsstring \<Rightarrow> jsstring" where
  "asciiUpper s = map (\<lambda>c. if 97 \<le> c \<and> c \<le> 122 then c - 32 else c) s"

section \<open>Summary cards\<close>

datatype badgeStyle = Green | Red

definition isPositive :: "jsval \<Rightarrow> bool" where
  "isPositive v = ge_zero (toNumber v)"

text \<open>
  \<open>formatPercent\<close>: \<open>value * 100\<close> is a number whatever the operand, so the method call
  on it is a call on a \<open>Number\<close>.
\<close>

definition formatPercent ::
  "(jsnum \<Rightarrow> nat \<Rightarrow> jsstring) \<Rightarrow> (jsnum \<Rightarrow> jsnum \<Rightarrow> jsnum) \<Rightarrow> jsval \<Rightarrow> error + jsstring" where
  "formatPercent toFixed mult v =
     (if isNaN v then Inr (js ''N/A'')
      else (case callToFixed toFixed (Number (mult (toNumber v) (Fin 100))) 2 of
              Inl e \<Rightarrow> Inl e
            | Inr percent \<Rightarrow> Inr (percent @ js ''%'')))"

text \<open>The arrows of the price-change badge, U+2191 and U+2193.\<close>

definition upGlyph :: jsstring where
  "upGlyph = [8593]"

definition downGlyph :: jsstring where
  "downGlyph = [8595]"

text \<open>Average Sentiment card: the class of the badge, its label and the figure.\<close>

definition sentimentBadgeStyle :: "StockData option \<Rightarrow> badgeStyle" where
  "sentimentBadgeStyle sd =
     (case sd of
        None \<Rightarrow> Red
      | Some d \<Rightarrow> if isPositive (average_sentiment d) then Green else Red)"

definition sentimentBadgeLabel :: "bool \<Rightarrow> StockData option \<Rightarrow> jsstring" where
  "sentimentBadgeLabel ld sd =
     (if ld then js ''Loading...''
      else (case sd of
              Some d \<Rightarrow>
                if gt_zero (toNumber (average_sentiment d)) then js ''Positive''
                else js ''Negative''
            | None \<Rightarrow> js ''---''))"

definition sentimentValue ::
  "(jsnum \<Rightarrow> nat \<Rightarrow> jsstring) \<Rightarrow> bool \<Rightarrow> StockData option \<Rightarrow> error + jsstring" where
  "sentimentValue toFixed ld sd =
     (if ld then Inr (js ''...'')
      else (case sd of
              Some d \<Rightarrow> callToFixed toFixed (average_sentiment d) 3
            | None \<Rightarrow> Inr (js ''---'')))"

text \<open>Price Change card.\<close>

definition priceChangeBadgeStyle :: "StockData option \<Rightarrow> badgeStyle" where
  "priceChangeBadgeStyle sd =
     (case sd of
        None \<Rightarrow> Red
      | Some d \<Rightarrow>
          if \<not> isNaN (price_change d) \<and> isPositive (price_change d) then Green else Red)"

definition priceChangeBadgeLabel ::
  "(jsnum \<Rightarrow> nat \<Rightarrow> jsstring) \<Rightarrow> (jsnum \<Rightarrow> jsnum \<Rightarrow> jsnum) \<Rightarrow> bool \<Rightarrow> StockData option
     \<Rightarrow> error + jsstring" where
  "priceChangeBadgeLabel toFixed mult ld sd =
     (if ld then Inr (js ''Loading...'')
      else (case sd of
              None \<Rightarrow> Inr (js ''---'')
            | Some d \<Rightarrow>
                if \<not> isNaN (price_change d)
                then (case formatPercent toFixed mult (price_change d) of
                        Inl e \<Rightarrow> Inl e
                      | Inr p \<Rightarrow>
                          Inr (p @ js '' '' @
                               (if isPositive (price_change d) then upGlyph else downGlyph)))
                else Inr (js ''---'')))"

definition priceChangeValue ::
  "(jsnum \<Rightarrow> nat \<Rightarrow> jsstring) \<Rightarrow> (jsnum \<Rightarrow> jsnum \<Rightarrow> jsnum) \<Rightarrow> bool \<Rightarrow> StockData option
     \<Rightarrow> error + jsstring" where
  "priceChangeValue toFixed mult ld sd =
     (if ld then Inr (js ''...'')
      else (case sd of
              Some d \<Rightarrow> formatPercent toFixed mult (price_change d)
            | None \<Rightarrow> Inr (js ''---'')))"

text \<open>
  The third card shows \<open>mean_price\<close> in \<open>App.tsx\<close> and \<open>reddit_sentiment\<close> in the
  second source file.
\<close>

datatype variant = WithPredictions | Simple

definition thirdCardField :: "variant \<Rightarrow> StockData \<Rightarrow> jsval" where
  "thirdCardField v d = (case v of WithPredictions \<Rightarrow> mean_price d | Simple \<Rightarrow> reddit_sentiment d)"

definition thirdCardBadgeStyle :: "variant \<Rightarrow> StockData option \<Rightarrow> badgeStyle" where
  "thirdCardBadgeStyle v sd =
     (case sd of
        None \<Rightarrow> Red
      | Some d \<Rightarrow> if isPositive (thirdCardField v d) then Green else Red)"

definition thirdCardBadgeLabel :: "variant \<Rightarrow> bool \<Rightarrow> jsstring" where
  "thirdCardBadgeLabel v ld =
     (if ld then js ''Loading...''
      else (case v of WithPredictions \<Rightarrow> js ''Average Price'' | Simple \<Rightarrow> js ''Reddit''))"

definition thirdCardValue ::
  "(jsnum \<Rightarrow> nat \<Rightarrow> jsstring) \<Rightarrow> variant \<Rightarrow> bool \<Rightarrow> StockData option \<Rightarrow> error + jsstring" where
  "thirdCardValue toFixed v ld sd =
     (if ld then Inr (js ''...'')
      else (case sd of
              Some d \<Rightarrow> callToFixed toFixed (thirdCardField v d) 3
            | None \<Rightarrow> Inr (js ''---'')))"

text \<open>
  The search panel lists the sentiment figures when \<open>stockData\<close> is set: the YFinance
  figure in both files, the Reddit figure in \<open>App.tsx\<close> only. \<open>None\<close> is a part that
  is not rendered.
\<close>

definition panelYfinance ::
  "(jsnum \<Rightarrow> nat \<Rightarrow> jsstring) \<Rightarrow> StockData option \<Rightarrow> error + jsstring option" where
  "panelYfinance toFixed sd =
     (case sd of
        None \<Rightarrow> Inr None
      | Some d \<Rightarrow> map_sum id Some (callToFixed toFixed (yfinance_sentiment d) 3))"

definition panelReddit ::
  "(jsnum \<Rightarrow> nat \<Rightarrow> jsstring) \<Rightarrow> variant \<Rightarrow> StockData option \<Rightarrow> error + jsstring option" where
  "panelReddit toFixed v sd =
     (case v of
        Simple \<Rightarrow> Inr None
      | WithPredictions \<Rightarrow>
          (case sd of
             None \<Rightarrow> Inr None
           | Some d \<Rightarrow> map_sum id Some (callToFixed toFixed (reddit_sentiment d) 3)))"

section \<open>Chart region\<close>

text \<open>\<open>Array.prototype.findIndex\<close>: the index of the first element that satisfies \<open>p\<close>, or \<open>-1\<close>.\<close>

fun findIndexFrom :: "('a \<Rightarrow> bool) \<Rightarrow> int \<Rightarrow> 'a list \<Rightarrow> int" where
  "findIndexFrom p k [] = -1"
| "findIndexFrom p k (x # xs) = (if p x then k else findIndexFrom p (k + 1) xs)"

definition findIndex :: "('a \<Rightarrow> bool) \<Rightarrow> 'a list \<Rightarrow> int" where
  "findIndex p xs = findIndexFrom p 0 xs"

text \<open>Reading \<open>xs[i]\<close>: \<open>None\<close> is the \<open>undefined\<close> of an index out of range.\<close>

definition arrayAt :: "'a list \<Rightarrow> int \<Rightarrow> 'a option" where
  "arrayAt xs i = (if 0 \<le> i \<and> i < int (length xs) then Some (xs ! nat i) else None)"

definition getPredictionStartIndex :: "StockData option \<Rightarrow> int" where
  "getPredictionStartIndex sd =
     (case sd of
        None \<Rightarrow> -1
      | Some d \<Rightarrow>
          (case historical d of
             None \<Rightarrow> -1
           | Some hs \<Rightarrow> findIndex (\<lambda>r. close r = None) hs))"

text \<open>
  The \<open>ReferenceLine\<close> of \<open>App.tsx\<close>: \<open>Inr None\<close> when the guard fails and nothing is
  rendered, \<open>Inr (Some x)\<close> a marker at the date \<open>x\<close>. Reading \<open>.date\<close> of a row that
  does not exist raises a TypeError.
\<close>

definition referenceLine :: "StockData option \<Rightarrow> error + jsstring option" where
  "referenceLine sd =
     (if getPredictionStartIndex sd > 0
      then (case sd of
              None \<Rightarrow> Inl TypeError
            | Some d \<Rightarrow>
                (case historical d of
                   None \<Rightarrow> Inl TypeError
                 | Some hs \<Rightarrow>
                     (case arrayAt hs (getPredictionStartIndex sd - 1) of
                        None \<Rightarrow> Inl TypeError
                      | Some row \<Rightarrow> Inr (Some (date row)))))
      else Inr None)"

text \<open>The \<open>Line\<close> elements of the chart; \<open>connectNulls\<close> is \<open>None\<close> where the prop is not given.\<close>

datatype seriesKey = CloseKey | Ma5Key | PredictedCloseKey

record LineProps =
  dataKey :: seriesKey
  lineName :: jsstring
  connectNulls :: "bool option"

definition chartLines :: "variant \<Rightarrow> LineProps list" where
  "chartLines v =
     (case v of
        WithPredictions \<Rightarrow>
          [\<lparr> dataKey = CloseKey, lineName = js ''Closing Price'', connectNulls = Some False \<rparr>,
           \<lparr> dataKey = Ma5Key, lineName = js ''5-Day MA'', connectNulls = Some False \<rparr>,
           \<lparr> dataKey = PredictedCloseKey, lineName = js ''Predicted Price'',
             connectNulls = Some False \<rparr>]
      | Simple \<Rightarrow>
          [\<lparr> dataKey = CloseKey, lineName = js ''Closing Price'', connectNulls = None \<rparr>,
           \<lparr> dataKey = Ma5Key, lineName = js ''5-Day MA'', connectNulls = Some True \<rparr>])"

record ChartProps =
  chartData :: "HistoricalData list"
  marker :: "jsstring option"
  chartSeries :: "LineProps list"

datatype chartRegion = LoadingText | ErrorText jsstring | LineChart ChartProps | NoDataText

text \<open>The last two branches of the conditional of the chart section.\<close>

definition chartOrPlaceholder :: "variant \<Rightarrow> StockData option \<Rightarrow> error + chartRegion" where
  "chartOrPlaceholder v sd =
     (case sd of
        None \<Rightarrow> Inr NoDataText
      | Some d \<Rightarrow>
          (case historical d of
             None \<Rightarrow> Inr NoDataText
           | Some hs \<Rightarrow>
               if length hs > 0
               then (case v of
                       WithPredictions \<Rightarrow>
                         (case referenceLine sd of
                            Inl e \<Rightarrow> Inl e
                          | Inr m \<Rightarrow>
                              Inr (LineChart \<lparr> chartData = hs, marker = m,
                                     chartSeries = chartLines WithPredictions \<rparr>))
                     | Simple \<Rightarrow>
                         Inr (LineChart \<lparr> chartData = hs, marker = None,
                                chartSeries = chartLines Simple \<rparr>))
               else Inr NoDataText))"

definition chartSection ::
  "variant \<Rightarrow> bool \<Rightarrow> jsstring option \<Rightarrow> StockData option \<Rightarrow> error + chartRegion" where
  "chartSection v ld err sd =
     (if ld then Inr LoadingText
      else (case err of
              None \<Rightarrow> chartOrPlaceholder v sd
            | Some msg \<Rightarrow> if truthy msg then Inr (ErrorText msg) else chartOrPlaceholder v sd))"

text \<open>The values of one series, row by row.\<close>

definition seriesValues :: "seriesKey \<Rightarrow> HistoricalData list \<Rightarrow> jsnum option list" where
  "seriesValues k hs =
     map (case k of CloseKey \<Rightarrow> close | Ma5Key \<Rightarrow> ma5 | PredictedCloseKey \<Rightarrow> predicted_close) hs"

text \<open>
  Modelled from the spec: the \<open>Line\<close> component of the charting library is not part of
  the sources. A series is drawn as polylines through points (row index, value). When
  nulls are not connected the line is broken at every row whose value is null; when they
  are connected the null rows are skipped and the remaining points are joined. No point
  is drawn for a null row in either mode.
\<close>

fun brokenLines :: "nat \<Rightarrow> (nat \<times> jsnum) list \<Rightarrow> jsnum option list \<Rightarrow> (nat \<times> jsnum) list list" where
  "brokenLines i cur [] = (if cur = [] then [] else [cur])"
| "brokenLines i cur (None # vs) = (if cur = [] then [] else [cur]) @ brokenLines (Suc i) [] vs"
| "brokenLines i cur (Some y # vs) = brokenLines (Suc i) (cur @ [(i, y)]) vs"

fun pointsFrom :: "nat \<Rightarrow> jsnum option list \<Rightarrow> (nat \<times> jsnum) list" where
  "pointsFrom i [] = []"
| "pointsFrom i (None # vs) = pointsFrom (Suc i) vs"
| "pointsFrom i (Some y # vs) = (i, y) # pointsFrom (Suc i) vs"

definition drawLine :: "bool \<Rightarrow> jsnum option list \<Rightarrow> (nat \<times> jsnum) list list" where
  "drawLine connect vs =
     (if connect then (if pointsFrom 0 vs = [] then [] else [pointsFrom 0 vs])
      else brokenLines 0 [] vs)"

definition drawSeries :: "LineProps \<Rightarrow> HistoricalData list \<Rightarrow> (nat \<times> jsnum) list list" where
  "drawSeries l hs = drawLine (connectNulls l = Some True) (seriesValues (dataKey l) hs)"

text \<open>
  A polyline that bridges no gap: it is a non-empty run of consecutive rows, and every
  point carries the value its row has in the series.
\<close>

definition runOfRows :: "jsnum option list \<Rightarrow> (nat \<times> jsnum) list \<Rightarrow> bool" where
  "runOfRows vs seg =
     (seg \<noteq> [] \<and> map fst seg = [fst (hd seg)..<fst (hd seg) + length seg]
      \<and> list_all (\<lambda>(j, y). j < length vs \<and> vs ! j = Some y) seg)"

section \<open>Sample data\<close>

text \<open>A payload and an eight-row series (five realized rows, three forecast rows) for evaluation.\<close>

definition sampleData :: StockData where
  "sampleData = \<lparr> symbol = js ''AAPL'', average_sentiment = Number (Fin 0.125),
     price_change = Number (Fin (-0.0532)), reddit_sentiment = Number (Fin 0.2),
     yfinance_sentiment = Number (Fin 0.05),
     historical = Some [\<lparr> date = js ''2024-01-02'', close = Some (Fin 185), ma5 = None,
        predicted_close = None \<rparr>],
     mean_price = Number (Fin 185) \<rparr>"

definition sampleRow :: "string \<Rightarrow> real option \<Rightarrow> real option \<Rightarrow> real option \<Rightarrow> HistoricalData" where
  "sampleRow day c m p =
     \<lparr> date = js day, close = map_option Fin c, ma5 = map_option Fin m,
       predicted_close = map_option Fin p \<rparr>"

definition sampleSeries :: "HistoricalData list" where
  "sampleSeries =
     [sampleRow ''2024-01-02'' (Some 185) None None,
      sampleRow ''2024-01-03'' (Some 184) None None,
      sampleRow ''2024-01-04'' (Some 182) (Some 183) None,
      sampleRow ''2024-01-05'' (Some 181) (Some 182) None,
      sampleRow ''2024-01-08'' (Some 186) (Some 183) None,
      sampleRow ''2024-01-09'' None None (Some 187),
      sampleRow ''2024-01-10'' None None (Some 188),
      sampleRow ''2024-01-11'' None None (Some 189)]"

section \<open>Reachable states\<close>

text \<open>
  What holds of every state the component reaches: the loading flag is set exactly while
  a call is suspended, at most one call is suspended, and a stored error is not empty.
\<close>

definition consistent :: "App \<Rightarrow> bool" where
  "consistent s = ((loading s = (pending s \<noteq> [])) \<and> length (pending s) \<le> 1 \<and> error s \<noteq> Some [])"

section \<open>Search submissions\<close>

lemma all_dropWhile: "(\<forall>x \<in> set (dropWhile P s). P x) \<longleftrightarrow> (\<forall>x \<in> set s. P x)"
  by (induction s) auto

lemma trim_empty_iff: "trim s = [] \<longleftrightarrow> (\<forall>c \<in> set s. isWhiteSpace c)"
  by (simp add: trim_def all_dropWhile)

lemma requests_onKeyDown:
  "requests (onKeyDown key s) =
     (if key = js ''Enter'' \<and> trim (inputValue s) \<noteq> []
      then requests s @ [compareUrl (trim (inputValue s))] else requests s)"
  by (simp add: onKeyDown_def fetchStockData_begin_def truthy_def)

lemma requests_onClick:
  "requests (onClick s) =
     (if trim (inputValue s) \<noteq> []
      then requests s @ [compareUrl (trim (inputValue s))] else requests s)"
  by (simp add: onClick_def fetchStockData_begin_def truthy_def)

text \<open>
  C1. Committing the input, with the Enter key or with the button, issues a request
  exactly when the input is not empty after trimming. In that case exactly one request is
  added, to \<open>http://localhost:8000/compare/\<close> followed by the trimmed input; the input
  held in the state is the upper-cased text of the last edit. When the input is empty or
  consists of white space only, and for every key other than Enter, no request is added.
\<close>

theorem search_submission_request:
  "(trim (inputValue s) \<noteq> [] \<longrightarrow>
      requests (onKeyDown (js ''Enter'') s)
        = requests s @ [js ''http://localhost:8000/compare/'' @ trim (inputValue s)]
    \<and> requests (onClick s)
        = requests s @ [js ''http://localhost:8000/compare/'' @ trim (inputValue s)])
   \<and> ((\<forall>c \<in> set (inputValue s). isWhiteSpace c) \<longrightarrow>
        requests (onKeyDown key s) = requests s \<and> requests (onClick s) = requests s)
   \<and> ((\<forall>c \<in> set (inputValue s). isWhiteSpace c) \<longleftrightarrow> trim (inputValue s) = [])
   \<and> (key \<noteq> js ''Enter'' \<longrightarrow> requests (onKeyDown key s) = requests s)
   \<and> inputValue (onChange upper typed s) = upper typed
   \<and> requests (onChange upper typed s) = requests s
   \<and> trim (inputValue (onChange upper typed s)) = trim (upper typed)"
proof -
  have submit: "trim (inputValue s) \<noteq> [] \<longrightarrow>
      requests (onKeyDown (js ''Enter'') s)
        = requests s @ [js ''http://localhost:8000/compare/'' @ trim (inputValue s)]
    \<and> requests (onClick s)
        = requests s @ [js ''http://localhost:8000/compare/'' @ trim (inputValue s)]"
    by (simp add: requests_onKeyDown requests_onClick compareUrl_def)
  have blank: "(\<forall>c \<in> set (inputValue s). isWhiteSpace c) \<longrightarrow>
        requests (onKeyDown key s) = requests s \<and> requests (onClick s) = requests s"
    by (simp add: requests_onKeyDown requests_onClick trim_empty_iff)
  have blank_iff: "(\<forall>c \<in> set (inputValue s). isWhiteSpace c) \<longleftrightarrow> trim (inputValue s) = []"
    by (simp add: trim_empty_iff)
  have other_key: "key \<noteq> js ''Enter'' \<longrightarrow> requests (onKeyDown key s) = requests s"
    by (simp add: requests_onKeyDown)
  have edit: "inputValue (onChange upper typed s) = upper typed"
    "requests (onChange upper typed s) = requests s"
    "trim (inputValue (onChange upper typed s)) = trim (upper typed)"
    by (simp_all add: onChange_def)
  from submit blank blank_iff other_key edit show ?thesis
    by blast
qed

text \<open>
  The user types \<open>" msft "\<close> and commits: one request for \<open>MSFT\<close>. Two blanks, or the
  key \<open>a\<close>: none.
\<close>

theorem search_submission_request_witness:
  "requests (onClick (onChange asciiUpper (js '' msft '') initial))
     = [js ''http://localhost:8000/compare/MSFT'']
   \<and> requests (onKeyDown (js ''Enter'') (onChange asciiUpper (js '' msft '') initial))
     = [js ''http://localhost:8000/compare/MSFT'']
   \<and> requests (onClick (onChange asciiUpper (js ''  '') initial)) = []
   \<and> requests (onKeyDown (js ''Enter'') (onChange asciiUpper (js ''  '') initial)) = []
   \<and> requests (onKeyDown (js ''a'') (onChange asciiUpper (js ''msft'') initial)) = []"
proof -
  let ?s = "onChange asciiUpper (js '' msft '') initial"
  let ?e = "onChange asciiUpper (js ''  '') initial"
  let ?m = "onChange asciiUpper (js ''msft'') initial"
  have t1: "trim (inputValue ?s) = js ''MSFT''"
    by (simp add: onChange_def asciiUpper_def js_def trim_def isWhiteSpace_def)
  have r0: "requests ?s = []" "requests ?e = []" "requests ?m = []"
    by (simp_all add: onChange_def initial_def)
  have w: "\<forall>c \<in> set (inputValue ?e). isWhiteSpace c"
    by (simp add: onChange_def asciiUpper_def js_def isWhiteSpace_def)
  have k: "js ''a'' \<noteq> js ''Enter''"
    by (simp add: js_def)
  from search_submission_request [where s = "?s" and key = "js ''Enter''"] t1 r0
  have a: "requests (onKeyDown (js ''Enter'') ?s) = [js ''http://localhost:8000/compare/MSFT'']"
    "requests (onClick ?s) = [js ''http://localhost:8000/compare/MSFT'']"
    by (simp_all add: js_def)
  from search_submission_request [where s = "?e" and key = "js ''Enter''"] w r0
  have b: "requests (onKeyDown (js ''Enter'') ?e) = []" "requests (onClick ?e) = []"
    by simp_all
  from search_submission_request [where s = "?m" and key = "js ''a''"] k r0
  have c: "requests (onKeyDown (js ''a'') ?m) = []"
    by simp
  from a b c show ?thesis by simp
qed

section \<open>Outcome of a fetch\<close>

lemma generic_nonempty: "js ''Failed to fetch stock data'' \<noteq> []"
  by (simp add: js_def)

lemma errorMessage_nonempty: "errorMessage err \<noteq> []"
  by (simp add: errorMessage_def truthy_def generic_nonempty split: option.splits)



text \<open>
  C6, as the code has it. \<open>fetchStockData\<close> has the same text in both source files. A
  failed fetch leaves the stored payload, the current symbol and the input as they were,
  from the call to its end; a successful one replaces the payload by the response body
  and the symbol by the ticker.
\<close>

theorem failed_fetch_keeps_data:
  "stockData (fetchStockData_settle ticker (Rejected err) s) = stockData s
   \<and> currentSymbol (fetchStockData_settle ticker (Rejected err) s) = currentSymbol s
   \<and> inputValue (fetchStockData_settle ticker out s) = inputValue s
   \<and> stockData (fetchStockData_begin ticker s) = stockData s
   \<and> currentSymbol (fetchStockData_begin ticker s) = currentSymbol s
   \<and> inputValue (fetchStockData_begin ticker s) = inputValue s
   \<and> stockData (fetchStockData_settle ticker (Rejected err) (fetchStockData_begin ticker s))
       = stockData s
   \<and> currentSymbol (fetchStockData_settle ticker (Rejected err) (fetchStockData_begin ticker s))
       = currentSymbol s
   \<and> stockData (fetchStockData_settle ticker (Resolved payload) s) = Some payload
   \<and> currentSymbol (fetchStockData_settle ticker (Resolved payload) s) = ticker"
proof -
  have rejected: "stockData (fetchStockData_settle ticker (Rejected err) s') = stockData s'"
    "currentSymbol (fetchStockData_settle ticker (Rejected err) s') = currentSymbol s'" for s'
    by (simp_all add: fetchStockData_settle_def)
  have input: "inputValue (fetchStockData_settle ticker out s) = inputValue s"
    by (cases out) (simp_all add: fetchStockData_settle_def)
  have started: "stockData (fetchStockData_begin ticker s) = stockData s"
    "currentSymbol (fetchStockData_begin ticker s) = currentSymbol s"
    "inputValue (fetchStockData_begin ticker s) = inputValue s"
    by (simp_all add: fetchStockData_begin_def)
  have resolved: "stockData (fetchStockData_settle ticker (Resolved payload) s) = Some payload"
    "currentSymbol (fetchStockData_settle ticker (Resolved payload) s) = ticker"
    by (simp_all add: fetchStockData_settle_def)
  from rejected input started resolved show ?thesis
    by simp
qed

text \<open>
  C6 as stated has one variant clear the payload on failure. The one \<open>fetchStockData\<close>
  of both files keeps it: after a successful fetch of \<open>AAPL\<close>, a failed fetch of
  \<open>MSFT\<close> leaves the \<open>AAPL\<close> payload stored.
\<close>

theorem failed_fetch_not_cleared_counterexample:
  "stockData (fetchStockData_settle (js ''MSFT'') (Rejected \<lparr> response = None \<rparr>)
      (fetchStockData_begin (js ''MSFT'')
         (fetchStockData_settle (js ''AAPL'') (Resolved sampleData) mounted)))
     = Some sampleData"
  by (simp add: fetchStockData_settle_def fetchStockData_begin_def)

section \<open>Loading flag and controls\<close>

lemma consistent_mounted: "consistent mounted"
  by (simp add: consistent_def mounted_def fetchStockData_begin_def initial_def)

lemma consistent_step: "consistent s \<Longrightarrow> consistent (step upper e s)"
proof (cases e)
  case (Settle i out)
  assume "consistent s"
  then show ?thesis using Settle
    by (cases "pending s"; cases out)
       (auto simp: consistent_def fetchStockData_settle_def removeAt_def errorMessage_nonempty)
qed (auto simp: consistent_def inputDisabled_def buttonDisabled_def onChange_def onKeyDown_def
       onClick_def fetchStockData_begin_def)

lemma consistent_foldl: "consistent s \<Longrightarrow> consistent (foldl (\<lambda>s e. step upper e s) s evs)"
  by (induction evs arbitrary: s) (simp_all add: consistent_step)

lemma consistent_run: "consistent (run upper evs)"
  by (simp add: run_def consistent_foldl consistent_mounted)

lemma settle_enabled:
  "consistent s \<Longrightarrow>
     \<not> loading (step upper (Settle 0 out) s) \<and> pending (step upper (Settle 0 out) s) = []"
  by (cases "pending s"; cases out)
     (auto simp: consistent_def fetchStockData_settle_def removeAt_def)

lemma begin_disables:
  "loading (fetchStockData_begin t s) \<and> pending (fetchStockData_begin t s) \<noteq> []"
  by (simp add: fetchStockData_begin_def)

text \<open>
  C7. In every state reached from the mounted component the input field and the button
  are disabled exactly when the loading flag is set, and the flag is set exactly while a
  call of \<open>fetchStockData\<close> is suspended. When the suspended call resumes, resolved or
  rejected, both controls are enabled; when a non-blank input is committed in an enabled
  state, both are disabled.
\<close>

theorem controls_disabled_while_loading:
  "inputDisabled (run upper evs) = loading (run upper evs)
   \<and> buttonDisabled (run upper evs) = loading (run upper evs)
   \<and> loading (run upper evs) = (pending (run upper evs) \<noteq> [])
   \<and> \<not> inputDisabled (run upper (evs @ [Settle 0 out]))
   \<and> \<not> buttonDisabled (run upper (evs @ [Settle 0 out]))
   \<and> pending (run upper (evs @ [Settle 0 out])) = []
   \<and> (\<not> loading (run upper evs) \<and> trim (inputValue (run upper evs)) \<noteq> [] \<longrightarrow>
        inputDisabled (run upper (evs @ [Click]))
        \<and> buttonDisabled (run upper (evs @ [Click]))
        \<and> inputDisabled (run upper (evs @ [KeyDown (js ''Enter'')]))
        \<and> buttonDisabled (run upper (evs @ [KeyDown (js ''Enter'')])))"
proof -
  have i: "consistent (run upper evs)" by (rule consistent_run)
  have r: "run upper (evs @ [e]) = step upper e (run upper evs)" for e
    by (simp add: run_def)
  have c: "inputDisabled (run upper (evs @ [Click]))
        \<and> buttonDisabled (run upper (evs @ [Click]))
        \<and> inputDisabled (run upper (evs @ [KeyDown (js ''Enter'')]))
        \<and> buttonDisabled (run upper (evs @ [KeyDown (js ''Enter'')]))"
    if "\<not> loading (run upper evs) \<and> trim (inputValue (run upper evs)) \<noteq> []"
    using that
    by (simp add: r inputDisabled_def buttonDisabled_def onClick_def onKeyDown_def truthy_def
        begin_disables)
  from i settle_enabled [OF i, of upper out] c show ?thesis
    by (simp add: r inputDisabled_def buttonDisabled_def consistent_def)
qed

lemma run_sample:
  "run asciiUpper [Settle 0 (Resolved sampleData)]
     = \<lparr> stockData = Some sampleData, currentSymbol = js ''AAPL'', inputValue = js ''AAPL'',
         loading = False, error = None,
         requests = [js ''http://localhost:8000/compare/AAPL''], pending = [] \<rparr>"
  by (simp add: run_def mounted_def initial_def fetchStockData_begin_def
      fetchStockData_settle_def removeAt_def compareUrl_def js_def)

text \<open>
  The first fetch resolves, the user clicks the button (controls disabled), the second
  fetch is rejected (controls enabled again).
\<close>

theorem controls_disabled_while_loading_witness:
  "\<not> loading (run asciiUpper [Settle 0 (Resolved sampleData)])
   \<and> trim (inputValue (run asciiUpper [Settle 0 (Resolved sampleData)])) \<noteq> []
   \<and> inputDisabled (run asciiUpper [Settle 0 (Resolved sampleData), Click])
   \<and> buttonDisabled (run asciiUpper [Settle 0 (Resolved sampleData), Click])
   \<and> \<not> inputDisabled (run asciiUpper [Settle 0 (Resolved sampleData), Click,
          Settle 0 (Rejected \<lparr> response = None \<rparr>)])
   \<and> \<not> buttonDisabled (run asciiUpper [Settle 0 (Resolved sampleData), Click,
          Settle 0 (Rejected \<lparr> response = None \<rparr>)])"
proof -
  have h: "\<not> loading (run asciiUpper [Settle 0 (Resolved sampleData)])
     \<and> trim (inputValue (run asciiUpper [Settle 0 (Resolved sampleData)])) \<noteq> []"
    by (simp add: run_sample trim_def js_def isWhiteSpace_def)
  from controls_disabled_while_loading [where upper = asciiUpper
      and evs = "[Settle 0 (Resolved sampleData)]"] h
  have a: "inputDisabled (run asciiUpper [Settle 0 (Resolved sampleData), Click])
     \<and> buttonDisabled (run asciiUpper [Settle 0 (Resolved sampleData), Click])"
    by simp
  from controls_disabled_while_loading [where upper = asciiUpper
      and evs = "[Settle 0 (Resolved sampleData), Click]"
      and out = "Rejected \<lparr> response = None \<rparr>"]
  have b: "\<not> inputDisabled (run asciiUpper [Settle 0 (Resolved sampleData), Click,
          Settle 0 (Rejected \<lparr> response = None \<rparr>)])
   \<and> \<not> buttonDisabled (run asciiUpper [Settle 0 (Resolved sampleData), Click,
          Settle 0 (Rejected \<lparr> response = None \<rparr>)])"
    by simp
  from h a b show ?thesis by blast
qed

section \<open>Summary cards\<close>

text \<open>
  C9. With an average sentiment of exactly zero the badge of the Average Sentiment card
  reads \<open>Negative\<close> (the label tests \<open>> 0\<close>) in the green style (the class tests
  \<open>>= 0\<close>). Above zero the label is \<open>Positive\<close> and the style green, below zero the
  label is \<open>Negative\<close> and the style red. The card has the same text in both files.
\<close>

theorem sentiment_badge_at_zero:
  "sentimentBadgeLabel False (Some (d\<lparr> average_sentiment := Number (Fin 0) \<rparr>)) = js ''Negative''
   \<and> sentimentBadgeStyle (Some (d\<lparr> average_sentiment := Number (Fin 0) \<rparr>)) = Green
   \<and> (0 < r \<longrightarrow>
        sentimentBadgeLabel False (Some (d\<lparr> average_sentiment := Number (Fin r) \<rparr>)) = js ''Positive''
      \<and> sentimentBadgeStyle (Some (d\<lparr> average_sentiment := Number (Fin r) \<rparr>)) = Green)
   \<and> (r < 0 \<longrightarrow>
        sentimentBadgeLabel False (Some (d\<lparr> average_sentiment := Number (Fin r) \<rparr>)) = js ''Negative''
      \<and> sentimentBadgeStyle (Some (d\<lparr> average_sentiment := Number (Fin r) \<rparr>)) = Red)
   \<and> sentimentBadgeLabel False (Some (d\<lparr> average_sentiment := Number PosInf \<rparr>)) = js ''Positive''
   \<and> sentimentBadgeStyle (Some (d\<lparr> average_sentiment := Number PosInf \<rparr>)) = Green
   \<and> sentimentBadgeLabel False (Some (d\<lparr> average_sentiment := Number NegInf \<rparr>)) = js ''Negative''
   \<and> sentimentBadgeStyle (Some (d\<lparr> average_sentiment := Number NegInf \<rparr>)) = Red
   \<and> js ''Positive'' \<noteq> js ''Negative''"
proof -
  have label: "sentimentBadgeLabel False (Some (d\<lparr> average_sentiment := Number n \<rparr>))
      = (if gt_zero n then js ''Positive'' else js ''Negative'')" for n
    by (simp add: sentimentBadgeLabel_def)
  have style: "sentimentBadgeStyle (Some (d\<lparr> average_sentiment := Number n \<rparr>))
      = (if ge_zero n then Green else Red)" for n
    by (simp add: sentimentBadgeStyle_def isPositive_def)
  have differ: "js ''Positive'' \<noteq> js ''Negative''"
    by (simp add: js_def)
  from differ show ?thesis
    by (simp add: label style)
qed

theorem sentiment_badge_at_zero_witness:
  "sentimentBadgeLabel False (Some sampleData) = js ''Positive''
   \<and> sentimentBadgeStyle (Some sampleData) = Green
   \<and> sentimentBadgeLabel False (Some (sampleData\<lparr> average_sentiment := Number (Fin (-0.3)) \<rparr>))
       = js ''Negative''
   \<and> sentimentBadgeStyle (Some (sampleData\<lparr> average_sentiment := Number (Fin (-0.3)) \<rparr>)) = Red
   \<and> sentimentBadgeLabel False (Some (sampleData\<lparr> average_sentiment := Number (Fin 0) \<rparr>))
       = js ''Negative''
   \<and> sentimentBadgeStyle (Some (sampleData\<lparr> average_sentiment := Number (Fin 0) \<rparr>)) = Green"
proof -
  have s: "sampleData\<lparr> average_sentiment := Number (Fin 0.125) \<rparr> = sampleData"
    by (simp add: sampleData_def)
  from sentiment_badge_at_zero [where d = sampleData and r = "0.125"]
    sentiment_badge_at_zero [where d = sampleData and r = "-0.3"] s
  show ?thesis by simp
qed

lemma formatPercent_eq:
  "formatPercent toFixed mult v
     = (if isNaN v then Inr (js ''N/A'')
        else Inr (toFixed (mult (toNumber v) (Fin 100)) 2 @ js ''%''))"
  by (simp add: formatPercent_def)

text \<open>
  C5. With data loaded, the sentiment figures and the mean price are shown as
  \<open>toFixed(3)\<close> of the value. \<open>formatPercent\<close> gives \<open>N/A\<close> for NaN and for an
  absent value, and otherwise \<open>toFixed(2)\<close> of the value times 100 followed by \<open>%\<close>;
  the figure and the badge of the Price Change card are strings for every payload (no
  exception is raised). The badge appends the up arrow exactly when the value is
  \<open>>= 0\<close>, zero included, and the down arrow otherwise; for NaN and for an absent
  value the badge shows the placeholder in the red style.
\<close>

theorem number_display_formatting:
  "sentimentValue toFixed False (Some (d\<lparr> average_sentiment := Number n \<rparr>)) = Inr (toFixed n 3)
   \<and> thirdCardValue toFixed WithPredictions False (Some (d\<lparr> mean_price := Number n \<rparr>))
       = Inr (toFixed n 3)
   \<and> thirdCardValue toFixed Simple False (Some (d\<lparr> reddit_sentiment := Number n \<rparr>))
       = Inr (toFixed n 3)
   \<and> panelYfinance toFixed (Some (d\<lparr> yfinance_sentiment := Number n \<rparr>))
       = Inr (Some (toFixed n 3))
   \<and> panelReddit toFixed WithPredictions (Some (d\<lparr> reddit_sentiment := Number n \<rparr>))
       = Inr (Some (toFixed n 3))
   \<and> formatPercent toFixed mult v
       = (if isNaN v then Inr (js ''N/A'')
          else Inr (toFixed (mult (toNumber v) (Fin 100)) 2 @ js ''%''))
   \<and> isNaN Undefined \<and> isNaN (Number NaN)
   \<and> formatPercent toFixed mult Undefined = Inr (js ''N/A'')
   \<and> formatPercent toFixed mult (Number NaN) = Inr (js ''N/A'')
   \<and> priceChangeValue toFixed mult False (Some d) = formatPercent toFixed mult (price_change d)
   \<and> (\<exists>shown. priceChangeValue toFixed mult ld sd = Inr shown)
   \<and> (\<exists>shown. priceChangeBadgeLabel toFixed mult ld sd = Inr shown)
   \<and> priceChangeBadgeLabel toFixed mult False (Some d)
       = (if isNaN (price_change d) then Inr (js ''---'')
          else Inr (toFixed (mult (toNumber (price_change d)) (Fin 100)) 2 @ js ''%'' @ js '' '' @
                    (if ge_zero (toNumber (price_change d)) then upGlyph else downGlyph)))
   \<and> ge_zero (Fin 0) \<and> upGlyph \<noteq> downGlyph
   \<and> priceChangeBadgeStyle (Some (d\<lparr> price_change := Undefined \<rparr>)) = Red
   \<and> priceChangeBadgeStyle (Some (d\<lparr> price_change := Number NaN \<rparr>)) = Red"
proof -
  have three: "sentimentValue toFixed False (Some (d\<lparr> average_sentiment := Number n \<rparr>))
       = Inr (toFixed n 3)"
    "thirdCardValue toFixed WithPredictions False (Some (d\<lparr> mean_price := Number n \<rparr>))
       = Inr (toFixed n 3)"
    "thirdCardValue toFixed Simple False (Some (d\<lparr> reddit_sentiment := Number n \<rparr>))
       = Inr (toFixed n 3)"
    "panelYfinance toFixed (Some (d\<lparr> yfinance_sentiment := Number n \<rparr>))
       = Inr (Some (toFixed n 3))"
    "panelReddit toFixed WithPredictions (Some (d\<lparr> reddit_sentiment := Number n \<rparr>))
       = Inr (Some (toFixed n 3))"
    by (simp_all add: sentimentValue_def thirdCardValue_def thirdCardField_def
        panelYfinance_def panelReddit_def)
  have nan: "isNaN Undefined" "isNaN (Number NaN)"
    by (simp_all add: isNaN_def)
  have figure: "priceChangeValue toFixed mult False (Some d)
       = formatPercent toFixed mult (price_change d)"
    by (simp add: priceChangeValue_def)
  have no_throw: "\<exists>shown. priceChangeValue toFixed mult ld sd = Inr shown"
    "\<exists>shown. priceChangeBadgeLabel toFixed mult ld sd = Inr shown"
    by (simp_all add: priceChangeValue_def priceChangeBadgeLabel_def formatPercent_eq
        split: option.splits)
  have badge: "priceChangeBadgeLabel toFixed mult False (Some d)
       = (if isNaN (price_change d) then Inr (js ''---'')
          else Inr (toFixed (mult (toNumber (price_change d)) (Fin 100)) 2 @ js ''%'' @ js '' '' @
                    (if ge_zero (toNumber (price_change d)) then upGlyph else downGlyph)))"
    by (simp add: priceChangeBadgeLabel_def formatPercent_eq isPositive_def)
  have glyphs: "ge_zero (Fin 0)" "upGlyph \<noteq> downGlyph"
    by (simp_all add: upGlyph_def downGlyph_def)
  have red: "priceChangeBadgeStyle (Some (d\<lparr> price_change := Undefined \<rparr>)) = Red"
    "priceChangeBadgeStyle (Some (d\<lparr> price_change := Number NaN \<rparr>)) = Red"
    by (simp_all add: priceChangeBadgeStyle_def isNaN_def)
  from three nan figure no_throw badge glyphs red show ?thesis
    by (simp add: formatPercent_eq)
qed

section \<open>Prediction boundary\<close>

lemma findIndexFrom_range:
  "findIndexFrom p k xs = -1 \<or> (k \<le> findIndexFrom p k xs \<and> findIndexFrom p k xs < k + int (length xs))"
proof (induction xs arbitrary: k)
  case Nil
  then show ?case by simp
next
  case (Cons x xs)
  show ?case
  proof (cases "p x")
    case True
    then show ?thesis by simp
  next
    case False
    with Cons [of "k + 1"] show ?thesis by auto
  qed
qed

lemma findIndexFrom_none:
  "0 \<le> k \<Longrightarrow> (findIndexFrom p k xs = -1) = (\<forall>x \<in> set xs. \<not> p x)"
proof (induction xs arbitrary: k)
  case Nil
  then show ?case by simp
next
  case (Cons x xs)
  show ?case
  proof (cases "p x")
    case True
    with Cons.prems show ?thesis by auto
  next
    case False
    with Cons.IH [of "k + 1"] Cons.prems show ?thesis by simp
  qed
qed

lemma findIndexFrom_absent:
  "\<forall>x \<in> set xs. \<not> p x \<Longrightarrow> findIndexFrom p k xs = -1"
  by (induction xs arbitrary: k) simp_all

lemma findIndexFrom_append:
  "\<forall>x \<in> set pre. \<not> p x \<Longrightarrow> p b \<Longrightarrow> findIndexFrom p k (pre @ b # post) = k + int (length pre)"
  by (induction pre arbitrary: k) simp_all


lemma getPredictionStartIndex_Some:
  "getPredictionStartIndex (Some (d\<lparr> historical := Some hs \<rparr>)) = findIndexFrom (\<lambda>r. close r = None) 0 hs"
  by (simp add: getPredictionStartIndex_def findIndex_def)

lemma getPredictionStartIndex_range:
  "sd = Some d \<Longrightarrow> historical d = Some hs \<Longrightarrow>
     getPredictionStartIndex sd = -1
     \<or> (0 \<le> getPredictionStartIndex sd \<and> getPredictionStartIndex sd < int (length hs))"
  using findIndexFrom_range [of "\<lambda>r. close r = None" 0 hs]
  by (simp add: getPredictionStartIndex_def findIndex_def)

lemma getPredictionStartIndex_missing:
  "sd = None \<or> (\<exists>d. sd = Some d \<and> historical d = None) \<Longrightarrow> getPredictionStartIndex sd = -1"
  by (auto simp: getPredictionStartIndex_def)

lemma referenceLine_eq:
  "referenceLine sd =
     (if 0 < getPredictionStartIndex sd
      then (case sd of
              Some d \<Rightarrow> (case historical d of
                           Some hs \<Rightarrow> Inr (Some (date (hs ! nat (getPredictionStartIndex sd - 1))))
                         | None \<Rightarrow> Inr None)
            | None \<Rightarrow> Inr None)
      else Inr None)"
proof (cases sd)
  case None
  then show ?thesis
    using getPredictionStartIndex_missing [of sd] by (simp add: referenceLine_def)
next
  case (Some d)
  show ?thesis
  proof (cases "historical d")
    case None
    with Some show ?thesis
      using getPredictionStartIndex_missing [of sd] by (simp add: referenceLine_def)
  next
    case (Some hs)
    with \<open>sd = Some d\<close> getPredictionStartIndex_range [of sd d hs] show ?thesis
      by (auto simp: referenceLine_def arrayAt_def)
  qed
qed

lemma referenceLine_no_error: "referenceLine sd \<noteq> Inl e"
  by (simp add: referenceLine_eq split: option.splits)

lemma referenceLine_shown_iff:
  "(\<exists>x. referenceLine sd = Inr (Some x)) \<longleftrightarrow> 0 < getPredictionStartIndex sd"
  by (cases sd) (auto simp: referenceLine_eq getPredictionStartIndex_def split: option.splits)

text \<open>
  C10. The marker is rendered exactly when the index of the first record with a null
  close is greater than zero. With no null close the index is \<open>-1\<close>, with a null close
  in the first record it is \<open>0\<close>, and no marker is rendered in either case. When the
  marker is rendered, the index before the boundary is within the series, so the read of
  that record is defined and no exception is raised.
\<close>

theorem reference_line_guard:
  "(\<forall>e. referenceLine sd \<noteq> Inl e)
   \<and> ((\<exists>x. referenceLine sd = Inr (Some x)) \<longleftrightarrow> 0 < getPredictionStartIndex sd)
   \<and> (getPredictionStartIndex sd \<le> 0 \<longrightarrow> referenceLine sd = Inr None)
   \<and> ((\<forall>r \<in> set hs. close r \<noteq> None) \<longrightarrow>
        getPredictionStartIndex (Some (d\<lparr> historical := Some hs \<rparr>)) = -1
        \<and> referenceLine (Some (d\<lparr> historical := Some hs \<rparr>)) = Inr None)
   \<and> (close r0 = None \<longrightarrow>
        getPredictionStartIndex (Some (d\<lparr> historical := Some (r0 # rest) \<rparr>)) = 0
        \<and> referenceLine (Some (d\<lparr> historical := Some (r0 # rest) \<rparr>)) = Inr None)
   \<and> (0 < getPredictionStartIndex (Some (d\<lparr> historical := Some hs \<rparr>)) \<longrightarrow>
        0 \<le> getPredictionStartIndex (Some (d\<lparr> historical := Some hs \<rparr>)) - 1
        \<and> getPredictionStartIndex (Some (d\<lparr> historical := Some hs \<rparr>)) - 1 < int (length hs)
        \<and> arrayAt hs (getPredictionStartIndex (Some (d\<lparr> historical := Some hs \<rparr>)) - 1)
            = Some (hs ! nat (getPredictionStartIndex (Some (d\<lparr> historical := Some hs \<rparr>)) - 1))
        \<and> referenceLine (Some (d\<lparr> historical := Some hs \<rparr>))
            = Inr (Some (date (hs ! nat (getPredictionStartIndex (Some (d\<lparr> historical := Some hs \<rparr>)) - 1)))))"
proof -
  let ?sd = "Some (d\<lparr> historical := Some hs \<rparr>)"
  have a: "\<forall>e. referenceLine sd \<noteq> Inl e"
    by (simp add: referenceLine_no_error)
  have b: "getPredictionStartIndex sd \<le> 0 \<longrightarrow> referenceLine sd = Inr None"
    by (simp add: referenceLine_eq)
  have c: "(\<forall>r \<in> set hs. close r \<noteq> None) \<longrightarrow>
        getPredictionStartIndex ?sd = -1 \<and> referenceLine ?sd = Inr None"
  proof
    assume "\<forall>r \<in> set hs. close r \<noteq> None"
    then have "findIndexFrom (\<lambda>r. close r = None) 0 hs = -1"
      by (intro findIndexFrom_absent) simp
    then show "getPredictionStartIndex ?sd = -1 \<and> referenceLine ?sd = Inr None"
      by (simp add: referenceLine_eq getPredictionStartIndex_Some)
  qed
  have d: "close r0 = None \<longrightarrow>
        getPredictionStartIndex (Some (d\<lparr> historical := Some (r0 # rest) \<rparr>)) = 0
        \<and> referenceLine (Some (d\<lparr> historical := Some (r0 # rest) \<rparr>)) = Inr None"
    by (simp add: referenceLine_eq getPredictionStartIndex_Some)
  have e: "0 < getPredictionStartIndex ?sd \<longrightarrow>
        0 \<le> getPredictionStartIndex ?sd - 1
        \<and> getPredictionStartIndex ?sd - 1 < int (length hs)
        \<and> arrayAt hs (getPredictionStartIndex ?sd - 1) = Some (hs ! nat (getPredictionStartIndex ?sd - 1))
        \<and> referenceLine ?sd = Inr (Some (date (hs ! nat (getPredictionStartIndex ?sd - 1))))"
    using getPredictionStartIndex_range [of ?sd "d\<lparr> historical := Some hs \<rparr>" hs]
    by (auto simp: referenceLine_eq arrayAt_def)
  from a b c d e referenceLine_shown_iff [of sd] show ?thesis by blast
qed

theorem reference_line_guard_witness:
  "getPredictionStartIndex (Some (sampleData\<lparr> historical := Some (take 5 sampleSeries) \<rparr>)) = -1
   \<and> referenceLine (Some (sampleData\<lparr> historical := Some (take 5 sampleSeries) \<rparr>)) = Inr None
   \<and> getPredictionStartIndex (Some (sampleData\<lparr> historical := Some (drop 5 sampleSeries) \<rparr>)) = 0
   \<and> referenceLine (Some (sampleData\<lparr> historical := Some (drop 5 sampleSeries) \<rparr>)) = Inr None
   \<and> getPredictionStartIndex (Some (sampleData\<lparr> historical := Some sampleSeries \<rparr>)) - 1 = 4
   \<and> arrayAt sampleSeries 4 = Some (sampleSeries ! 4)
   \<and> referenceLine (Some (sampleData\<lparr> historical := Some sampleSeries \<rparr>))
       = Inr (Some (js ''2024-01-08''))"
proof -
  have n: "\<forall>r \<in> set (take 5 sampleSeries). close r \<noteq> None"
    by (simp add: sampleSeries_def sampleRow_def)
  have f: "drop 5 sampleSeries = (sampleSeries ! 5) # drop 6 sampleSeries"
    "close (sampleSeries ! 5) = None"
    by (simp_all add: sampleSeries_def sampleRow_def)
  have i: "getPredictionStartIndex (Some (sampleData\<lparr> historical := Some sampleSeries \<rparr>)) = 5"
    by (simp add: getPredictionStartIndex_def findIndex_def sampleSeries_def sampleRow_def)
  have d: "date (sampleSeries ! 4) = js ''2024-01-08''"
    by (simp add: sampleSeries_def sampleRow_def)
  from reference_line_guard [where hs = "take 5 sampleSeries" and d = sampleData] n
  have a: "getPredictionStartIndex (Some (sampleData\<lparr> historical := Some (take 5 sampleSeries) \<rparr>)) = -1
   \<and> referenceLine (Some (sampleData\<lparr> historical := Some (take 5 sampleSeries) \<rparr>)) = Inr None"
    by blast
  from reference_line_guard [where ?r0.0 = "sampleSeries ! 5" and rest = "drop 6 sampleSeries"
      and d = sampleData] f
  have b: "getPredictionStartIndex (Some (sampleData\<lparr> historical := Some (drop 5 sampleSeries) \<rparr>)) = 0
   \<and> referenceLine (Some (sampleData\<lparr> historical := Some (drop 5 sampleSeries) \<rparr>)) = Inr None"
    by simp
  from reference_line_guard [where hs = sampleSeries and d = sampleData] i d
  have c: "arrayAt sampleSeries 4 = Some (sampleSeries ! 4)
   \<and> referenceLine (Some (sampleData\<lparr> historical := Some sampleSeries \<rparr>))
       = Inr (Some (js ''2024-01-08''))"
    by simp
  from a b c i show ?thesis by simp
qed

text \<open>
  C4. Wherever the first record with a null close stands, the index found is the number
  of records before it; with at least one realized record the marker is placed at the
  date of the last realized record. With five realized records followed by forecast
  records the marker is at the date of the fifth record.
\<close>

theorem prediction_boundary:
  "(\<forall>r \<in> set realized. close r \<noteq> None) \<and> close f = None \<longrightarrow>
     getPredictionStartIndex (Some (d\<lparr> historical := Some (realized @ f # forecast) \<rparr>))
       = int (length realized)
     \<and> (realized \<noteq> [] \<longrightarrow>
          referenceLine (Some (d\<lparr> historical := Some (realized @ f # forecast) \<rparr>))
            = Inr (Some (date (last realized)))
        \<and> chartSection WithPredictions False None
            (Some (d\<lparr> historical := Some (realized @ f # forecast) \<rparr>))
            = Inr (LineChart \<lparr> chartData = realized @ f # forecast,
                    marker = Some (date (last realized)),
                    chartSeries = chartLines WithPredictions \<rparr>))
     \<and> (length realized = 5 \<longrightarrow>
          referenceLine (Some (d\<lparr> historical := Some (realized @ f # forecast) \<rparr>))
            = Inr (Some (date (realized ! 4))))"
proof
  let ?sd = "Some (d\<lparr> historical := Some (realized @ f # forecast) \<rparr>)"
  assume h: "(\<forall>r \<in> set realized. close r \<noteq> None) \<and> close f = None"
  then have "findIndexFrom (\<lambda>r. close r = None) 0 (realized @ f # forecast)
               = 0 + int (length realized)"
    by (intro findIndexFrom_append) simp_all
  then have i: "getPredictionStartIndex ?sd = int (length realized)"
    by (simp add: getPredictionStartIndex_Some)
  have r: "referenceLine ?sd = Inr (Some (date (last realized)))" if "realized \<noteq> []"
  proof -
    from that have "nat (int (length realized) - 1) = length realized - 1"
      by simp
    moreover from that have "(realized @ f # forecast) ! (length realized - 1) = last realized"
      by (simp add: nth_append last_conv_nth)
    ultimately show ?thesis using that
      by (simp add: referenceLine_eq i)
  qed
  have c: "chartSection WithPredictions False None ?sd
            = Inr (LineChart \<lparr> chartData = realized @ f # forecast,
                    marker = Some (date (last realized)),
                    chartSeries = chartLines WithPredictions \<rparr>)" if "realized \<noteq> []"
    using r [OF that] by (simp add: chartSection_def chartOrPlaceholder_def)
  have l: "referenceLine ?sd = Inr (Some (date (realized ! 4)))" if "length realized = 5"
  proof -
    from that have "realized \<noteq> []" by auto
    moreover from that have "last realized = realized ! 4"
      by (simp add: last_conv_nth \<open>realized \<noteq> []\<close>)
    ultimately show ?thesis using r by simp
  qed
  from i r c l show "getPredictionStartIndex ?sd = int (length realized)
     \<and> (realized \<noteq> [] \<longrightarrow>
          referenceLine ?sd = Inr (Some (date (last realized)))
        \<and> chartSection WithPredictions False None ?sd
            = Inr (LineChart \<lparr> chartData = realized @ f # forecast,
                    marker = Some (date (last realized)),
                    chartSeries = chartLines WithPredictions \<rparr>))
     \<and> (length realized = 5 \<longrightarrow> referenceLine ?sd = Inr (Some (date (realized ! 4))))"
    by blast
qed

theorem prediction_boundary_witness:
  "getPredictionStartIndex (Some (sampleData\<lparr> historical := Some sampleSeries \<rparr>)) = 5
   \<and> referenceLine (Some (sampleData\<lparr> historical := Some sampleSeries \<rparr>))
       = Inr (Some (js ''2024-01-08''))"
proof -
  have s: "sampleSeries = take 5 sampleSeries @ (sampleSeries ! 5) # drop 6 sampleSeries"
    by (simp add: sampleSeries_def)
  have h: "(\<forall>r \<in> set (take 5 sampleSeries). close r \<noteq> None) \<and> close (sampleSeries ! 5) = None"
    by (simp add: sampleSeries_def sampleRow_def)
  have l: "length (take 5 sampleSeries) = 5" "take 5 sampleSeries ! 4 = sampleSeries ! 4"
    by (simp_all add: sampleSeries_def)
  have d: "date (sampleSeries ! 4) = js ''2024-01-08''"
    by (simp add: sampleSeries_def sampleRow_def)
  from prediction_boundary [where realized = "take 5 sampleSeries" and f = "sampleSeries ! 5"
      and d = sampleData and forecast = "drop 6 sampleSeries"] h l d s
  show ?thesis by simp
qed

section \<open>Chart section\<close>

lemma chartOrPlaceholder_eq:
  "chartOrPlaceholder v sd =
      (case sd of
         None \<Rightarrow> Inr NoDataText
       | Some d \<Rightarrow>
          (case historical d of
             None \<Rightarrow> Inr NoDataText
           | Some hs \<Rightarrow>
              if hs = [] then Inr NoDataText
              else Inr (LineChart \<lparr> chartData = hs,
                      marker = (case v of WithPredictions \<Rightarrow> projr (referenceLine sd) | Simple \<Rightarrow> None),
                      chartSeries = chartLines v \<rparr>)))"
  using referenceLine_no_error [of sd]
  by (cases "referenceLine sd")
     (auto simp: chartOrPlaceholder_def split: option.splits variant.splits)

lemma chartSection_no_error:
  "chartSection v False None sd = chartOrPlaceholder v sd"
  by (simp add: chartSection_def)

text \<open>
  C3. The chart section depends on the loading flag, the error and the payload only.
  While loading it shows the loading text. Otherwise a non-empty error is shown as the
  error text. Otherwise the chart is drawn exactly when the payload is present and its
  historical series is not empty, with that series as data; in every other case the
  placeholder is shown. In every reachable state a stored error is not empty, so there
  an error that is set is the one shown.
\<close>

theorem chart_section_priority:
  "chartSection v True err sd = Inr LoadingText
   \<and> (msg \<noteq> [] \<longrightarrow> chartSection v False (Some msg) sd = Inr (ErrorText msg))
   \<and> ((\<exists>c. chartSection v False None sd = Inr (LineChart c))
        \<longleftrightarrow> (\<exists>d hs. sd = Some d \<and> historical d = Some hs \<and> hs \<noteq> []))
   \<and> (sd = Some d \<and> historical d = Some hs \<and> hs \<noteq> [] \<longrightarrow>
        (\<exists>c. chartSection v False None sd = Inr (LineChart c) \<and> chartData c = hs
              \<and> chartSeries c = chartLines v))
   \<and> (\<not> (\<exists>d hs. sd = Some d \<and> historical d = Some hs \<and> hs \<noteq> []) \<longrightarrow>
        chartSection v False None sd = Inr NoDataText)
   \<and> (error (run upper evs) = None
        \<or> (\<exists>msg. error (run upper evs) = Some msg \<and> msg \<noteq> []
              \<and> (chartSection v (loading (run upper evs)) (error (run upper evs))
                    (stockData (run upper evs))
                  = (if loading (run upper evs) then Inr LoadingText else Inr (ErrorText msg)))))"
proof -
  have a: "chartSection v True err sd = Inr LoadingText"
    by (simp add: chartSection_def)
  have b: "msg \<noteq> [] \<longrightarrow> chartSection v False (Some msg) sd = Inr (ErrorText msg)"
    by (simp add: chartSection_def truthy_def)
  have c: "(\<exists>c. chartSection v False None sd = Inr (LineChart c))
        \<longleftrightarrow> (\<exists>d hs. sd = Some d \<and> historical d = Some hs \<and> hs \<noteq> [])"
    by (auto simp: chartSection_no_error chartOrPlaceholder_eq split: option.splits)
  have c': "sd = Some d \<and> historical d = Some hs \<and> hs \<noteq> [] \<longrightarrow>
        (\<exists>c. chartSection v False None sd = Inr (LineChart c) \<and> chartData c = hs
              \<and> chartSeries c = chartLines v)"
    by (auto simp: chartSection_no_error chartOrPlaceholder_eq)
  have e: "\<not> (\<exists>d hs. sd = Some d \<and> historical d = Some hs \<and> hs \<noteq> []) \<longrightarrow>
        chartSection v False None sd = Inr NoDataText"
    by (auto simp: chartSection_no_error chartOrPlaceholder_eq split: option.splits)
  have "error (run upper evs) \<noteq> Some []"
    using consistent_run [of upper evs] by (simp add: consistent_def)
  then have f: "error (run upper evs) = None
        \<or> (\<exists>msg. error (run upper evs) = Some msg \<and> msg \<noteq> []
              \<and> (chartSection v (loading (run upper evs)) (error (run upper evs))
                    (stockData (run upper evs))
                  = (if loading (run upper evs) then Inr LoadingText else Inr (ErrorText msg))))"
    by (cases "error (run upper evs)") (auto simp: chartSection_def truthy_def)
  from a b c c' e f show ?thesis by blast
qed

theorem chart_section_priority_witness:
  "chartSection WithPredictions True (Some (js ''Not found'')) (Some sampleData) = Inr LoadingText
   \<and> chartSection WithPredictions False (Some (js ''Not found'')) (Some sampleData)
       = Inr (ErrorText (js ''Not found''))
   \<and> (\<exists>c. chartSection Simple False None (Some sampleData) = Inr (LineChart c)
            \<and> chartData c = the (historical sampleData) \<and> chartSeries c = chartLines Simple)
   \<and> chartSection Simple False None None = Inr NoDataText
   \<and> chartSection Simple False None (Some (sampleData\<lparr> historical := Some [] \<rparr>)) = Inr NoDataText"
proof -
  have m: "js ''Not found'' \<noteq> []"
    by (simp add: js_def)
  have h: "Some sampleData = Some sampleData \<and> historical sampleData = Some (the (historical sampleData))
      \<and> the (historical sampleData) \<noteq> []"
    by (simp add: sampleData_def)
  have e: "\<not> (\<exists>d hs. (None :: StockData option) = Some d \<and> historical d = Some hs \<and> hs \<noteq> [])"
    "\<not> (\<exists>d hs. Some (sampleData\<lparr> historical := Some [] \<rparr>) = Some d \<and> historical d = Some hs \<and> hs \<noteq> [])"
    by simp_all
  from chart_section_priority [where v = WithPredictions and msg = "js ''Not found''"
      and sd = "Some sampleData" and err = "Some (js ''Not found'')"] m
  have a: "chartSection WithPredictions True (Some (js ''Not found'')) (Some sampleData) = Inr LoadingText
   \<and> chartSection WithPredictions False (Some (js ''Not found'')) (Some sampleData)
       = Inr (ErrorText (js ''Not found''))"
    by blast
  from chart_section_priority [where v = Simple and sd = "Some sampleData" and d = sampleData
      and hs = "the (historical sampleData)"] h
  have b: "\<exists>c. chartSection Simple False None (Some sampleData) = Inr (LineChart c)
            \<and> chartData c = the (historical sampleData) \<and> chartSeries c = chartLines Simple"
    by blast
  from chart_section_priority [where v = Simple and sd = None] e(1)
  have c: "chartSection Simple False None None = Inr NoDataText"
    by blast
  from chart_section_priority [where v = Simple
      and sd = "Some (sampleData\<lparr> historical := Some [] \<rparr>)"] e(2)
  have d: "chartSection Simple False None (Some (sampleData\<lparr> historical := Some [] \<rparr>)) = Inr NoDataText"
    by blast
  from a b c d show ?thesis by blast
qed

section \<open>Null values in the series\<close>

lemma brokenLines_runs:
  assumes "cur = [] \<or> (length cur \<le> i \<and> map fst cur = [i - length cur..<i])"
    and "list_all (\<lambda>(j, y). j < length full \<and> full ! j = Some y) cur"
    and "i + length vs = length full"
    and "\<forall>n < length vs. full ! (i + n) = vs ! n"
  shows "list_all (runOfRows full) (brokenLines i cur vs)"
  using assms
proof (induction i cur vs rule: brokenLines.induct)
  case (1 i cur)
  show ?case
  proof (cases "cur = []")
    case True
    then show ?thesis by simp
  next
    case False
    with "1.prems"(1) have m: "length cur \<le> i" "map fst cur = [i - length cur..<i]"
      by auto
    from False have "fst (hd cur) = hd (map fst cur)"
      by (simp add: hd_map)
    also from m False have "\<dots> = i - length cur"
      by (cases cur) (simp_all add: hd_upt)
    finally have "map fst cur = [fst (hd cur)..<fst (hd cur) + length cur]"
      using m by simp
    with False "1.prems"(2) show ?thesis
      by (simp add: runOfRows_def)
  qed
next
  case (2 i cur vs)
  have rest: "list_all (runOfRows full) (brokenLines (Suc i) [] vs)"
  proof (rule "2.IH")
    show "[] = [] \<or> (length [] \<le> Suc i \<and> map fst [] = [Suc i - length []..<Suc i])"
      by simp
    show "list_all (\<lambda>(j, y). j < length full \<and> full ! j = Some y) []"
      by simp
    from "2.prems"(3) show "Suc i + length vs = length full"
      by simp
    from "2.prems"(4) show "\<forall>n < length vs. full ! (Suc i + n) = vs ! n"
      by (auto dest: spec [of _ "Suc n" for n])
  qed
  show ?case
  proof (cases "cur = []")
    case True
    with rest show ?thesis by simp
  next
    case False
    with "2.prems"(1) have m: "length cur \<le> i" "map fst cur = [i - length cur..<i]"
      by auto
    from False have "fst (hd cur) = hd (map fst cur)"
      by (simp add: hd_map)
    also from m False have "\<dots> = i - length cur"
      by (cases cur) (simp_all add: hd_upt)
    finally have "map fst cur = [fst (hd cur)..<fst (hd cur) + length cur]"
      using m by simp
    with False "2.prems"(2) have "runOfRows full cur"
      by (simp add: runOfRows_def)
    with False rest show ?thesis
      by simp
  qed
next
  case (3 i cur y vs)
  show ?case
    unfolding brokenLines.simps
  proof (rule "3.IH")
    from "3.prems"(1)
    show "cur @ [(i, y)] = [] \<or> (length (cur @ [(i, y)]) \<le> Suc i
            \<and> map fst (cur @ [(i, y)]) = [Suc i - length (cur @ [(i, y)])..<Suc i])"
      by auto
    from "3.prems"(4) have "full ! i = Some y"
      by (auto dest: spec [of _ 0])
    moreover from "3.prems"(3) have "i < length full"
      by simp
    ultimately show "list_all (\<lambda>(j, y). j < length full \<and> full ! j = Some y) (cur @ [(i, y)])"
      using "3.prems"(2) by simp
    from "3.prems"(3) show "Suc i + length vs = length full"
      by simp
    from "3.prems"(4) show "\<forall>n < length vs. full ! (Suc i + n) = vs ! n"
      by (auto dest: spec [of _ "Suc n" for n])
  qed
qed

lemma drawLine_broken_runs: "list_all (runOfRows vs) (drawLine False vs)"
  using brokenLines_runs [of "[]" 0 vs vs] by (simp add: drawLine_def)

lemma brokenLines_all_Some:
  "cur \<noteq> [] \<or> ys \<noteq> [] \<Longrightarrow> brokenLines i cur (map Some ys) = [cur @ enumerate i ys]"
  by (induction ys arbitrary: i cur) auto

lemma pointsFrom_all_Some: "pointsFrom i (map Some ys) = enumerate i ys"
  by (induction ys arbitrary: i) simp_all

lemma drawLine_leading_nulls:
  "ys \<noteq> [] \<Longrightarrow> drawLine c (None # None # map Some ys) = [enumerate 2 ys]"
proof -
  assume n: "ys \<noteq> []"
  have s: "Suc (Suc 0) = 2" by simp
  from n have "enumerate 2 ys \<noteq> []"
    by (cases ys) simp_all
  with n show ?thesis
    by (simp add: drawLine_def brokenLines_all_Some pointsFrom_all_Some s)
qed

lemma seriesValues_ma5_leading_nulls:
  "ma5 r1 = None \<Longrightarrow> ma5 r2 = None \<Longrightarrow> \<forall>r \<in> set rest. ma5 r \<noteq> None \<Longrightarrow>
     seriesValues Ma5Key (r1 # r2 # rest) = None # None # map Some (map (the \<circ> ma5) rest)"
  by (auto simp: seriesValues_def)

text \<open>
  C8. In \<open>App.tsx\<close> the three series (close, ma5, predicted close) are configured with
  \<open>connectNulls\<close> false, and every polyline drawn for them is a run of consecutive rows
  with their own values: no gap is bridged. In the second file the close series gives no
  \<open>connectNulls\<close> and is drawn the same way, and only the ma5 series connects nulls: it
  is one polyline through all its non-null points. When the first two rows have a null
  ma5 and the later rows have a value, the ma5 line of either file is the single polyline
  through the rows from the third on, with no point for the first two rows.
\<close>

theorem null_gaps_per_variant:
  "map connectNulls (chartLines WithPredictions) = [Some False, Some False, Some False]
   \<and> map dataKey (chartLines WithPredictions) = [CloseKey, Ma5Key, PredictedCloseKey]
   \<and> map connectNulls (chartLines Simple) = [None, Some True]
   \<and> map dataKey (chartLines Simple) = [CloseKey, Ma5Key]
   \<and> list_all (\<lambda>l. list_all (runOfRows (seriesValues (dataKey l) hs)) (drawSeries l hs))
        (chartLines WithPredictions)
   \<and> list_all (runOfRows (seriesValues CloseKey hs)) (drawSeries (chartLines Simple ! 0) hs)
   \<and> drawSeries (chartLines Simple ! 1) hs
       = (if pointsFrom 0 (map ma5 hs) = [] then [] else [pointsFrom 0 (map ma5 hs)])
   \<and> (ma5 r1 = None \<and> ma5 r2 = None \<and> rest \<noteq> [] \<and> (\<forall>r \<in> set rest. ma5 r \<noteq> None) \<longrightarrow>
        drawSeries (chartLines Simple ! 1) (r1 # r2 # rest)
          = [enumerate 2 (map (the \<circ> ma5) rest)]
        \<and> drawSeries (chartLines WithPredictions ! 1) (r1 # r2 # rest)
          = [enumerate 2 (map (the \<circ> ma5) rest)])"
proof -
  have a: "map connectNulls (chartLines WithPredictions) = [Some False, Some False, Some False]"
    "map dataKey (chartLines WithPredictions) = [CloseKey, Ma5Key, PredictedCloseKey]"
    "map connectNulls (chartLines Simple) = [None, Some True]"
    "map dataKey (chartLines Simple) = [CloseKey, Ma5Key]"
    by (simp_all add: chartLines_def)
  have b: "list_all (\<lambda>l. list_all (runOfRows (seriesValues (dataKey l) hs)) (drawSeries l hs))
        (chartLines WithPredictions)"
    by (simp add: chartLines_def drawSeries_def drawLine_broken_runs)
  have c: "list_all (runOfRows (seriesValues CloseKey hs)) (drawSeries (chartLines Simple ! 0) hs)"
    by (simp add: chartLines_def drawSeries_def drawLine_broken_runs)
  have d: "drawSeries (chartLines Simple ! 1) hs
       = (if pointsFrom 0 (map ma5 hs) = [] then [] else [pointsFrom 0 (map ma5 hs)])"
    by (simp add: chartLines_def drawSeries_def drawLine_def seriesValues_def)
  have e: "drawSeries (chartLines Simple ! 1) (r1 # r2 # rest)
          = [enumerate 2 (map (the \<circ> ma5) rest)]
        \<and> drawSeries (chartLines WithPredictions ! 1) (r1 # r2 # rest)
          = [enumerate 2 (map (the \<circ> ma5) rest)]"
    if h: "ma5 r1 = None \<and> ma5 r2 = None \<and> rest \<noteq> [] \<and> (\<forall>r \<in> set rest. ma5 r \<noteq> None)"
  proof -
    from h have s: "seriesValues Ma5Key (r1 # r2 # rest)
        = None # None # map Some (map (the \<circ> ma5) rest)"
      by (intro seriesValues_ma5_leading_nulls) simp_all
    from h have n: "map (the \<circ> ma5) rest \<noteq> []"
      by simp
    have "drawSeries (chartLines Simple ! 1) (r1 # r2 # rest)
        = drawLine True (seriesValues Ma5Key (r1 # r2 # rest))"
      by (simp add: drawSeries_def chartLines_def)
    also have "\<dots> = [enumerate 2 (map (the \<circ> ma5) rest)]"
      unfolding s by (rule drawLine_leading_nulls [OF n])
    finally have x: "drawSeries (chartLines Simple ! 1) (r1 # r2 # rest)
        = [enumerate 2 (map (the \<circ> ma5) rest)]" .
    have "drawSeries (chartLines WithPredictions ! 1) (r1 # r2 # rest)
        = drawLine False (seriesValues Ma5Key (r1 # r2 # rest))"
      by (simp add: drawSeries_def chartLines_def)
    also have "\<dots> = [enumerate 2 (map (the \<circ> ma5) rest)]"
      unfolding s by (rule drawLine_leading_nulls [OF n])
    finally show ?thesis using x by simp
  qed
  from a b c d e show ?thesis by blast
qed

theorem null_gaps_per_variant_witness:
  "drawSeries (chartLines Simple ! 1) (take 5 sampleSeries)
     = [[(2, Fin 183), (3, Fin 182), (4, Fin 183)]]
   \<and> drawSeries (chartLines WithPredictions ! 1) (take 5 sampleSeries)
     = [[(2, Fin 183), (3, Fin 182), (4, Fin 183)]]"
proof -
  have s: "take 5 sampleSeries
      = (sampleSeries ! 0) # (sampleSeries ! 1) # drop 2 (take 5 sampleSeries)"
    by (simp add: sampleSeries_def)
  have h: "ma5 (sampleSeries ! 0) = None \<and> ma5 (sampleSeries ! 1) = None
      \<and> drop 2 (take 5 sampleSeries) \<noteq> []
      \<and> (\<forall>r \<in> set (drop 2 (take 5 sampleSeries)). ma5 r \<noteq> None)"
    by (simp add: sampleSeries_def sampleRow_def)
  have e: "enumerate 2 (map (the \<circ> ma5) (drop 2 (take 5 sampleSeries)))
      = [(2, Fin 183), (3, Fin 182), (4, Fin 183)]"
    by (simp add: sampleSeries_def sampleRow_def)
  from null_gaps_per_variant [where ?r1.0 = "sampleSeries ! 0" and ?r2.0 = "sampleSeries ! 1"
      and rest = "drop 2 (take 5 sampleSeries)"] h
  have "drawSeries (chartLines Simple ! 1)
          ((sampleSeries ! 0) # (sampleSeries ! 1) # drop 2 (take 5 sampleSeries))
          = [enumerate 2 (map (the \<circ> ma5) (drop 2 (take 5 sampleSeries)))]
        \<and> drawSeries (chartLines WithPredictions ! 1)
          ((sampleSeries ! 0) # (sampleSeries ! 1) # drop 2 (take 5 sampleSeries))
          = [enumerate 2 (map (the \<circ> ma5) (drop 2 (take 5 sampleSeries)))]"
    by blast
  then show ?thesis
    unfolding e s [symmetric] .
qed

lemma connected_line_bridges_gap:
  "drawLine True [Some (Fin 1), None, Some (Fin 3)] = [[(0, Fin 1), (2, Fin 3)]]
   \<and> drawLine False [Some (Fin 1), None, Some (Fin 3)] = [[(0, Fin 1)], [(2, Fin 3)]]"
  by (simp add: drawLine_def)

end
